theory Spec2Isabelle
  imports
    Complex_Main
    "HOL-Library.Char_ord"
    "HOL-Library.List_Lexorder"
    "HOL-Library.Product_Lexorder"
    "HOL-Library.Multiset"
begin

section \<open>Python values shared by all components\<close>

text \<open>
  The program passes tasks around as string-keyed dictionaries. A dictionary the code only
  reads through fixed keys is a record here, with one field per key the code reads; a key
  that may be missing is an \<open>option\<close> field (\<open>None\<close>: the key is missing, which is also
  what \<open>dict.get\<close> returns for it; a key that holds the value \<open>None\<close> is modelled for
  the deadline only). Python floats are exact rationals: every float the
  modelled functions compute is a small decimal, and the statements proved below do not
  depend on how a decimal is rounded to a binary float. Exceptions are values of
  \<open>py_error\<close>, returned as \<open>Inl\<close>.
\<close>

datatype py_error = KeyError | TypeError | ZeroDivisionError

text \<open>
  The \<open>deadline\<close> key is read in two ways (\<open>task.get("deadline")\<close> in the priority agent,
  \<open>x.get("deadline", "")\<close> in the planner), and the collector's \<open>_normalize\<close> stores the
  key with the value \<open>None\<close> when the input had no deadline, so the three states are kept
  apart: the key is missing, the key holds \<open>None\<close>, the key holds a string.
\<close>

datatype deadline_field = Absent | Null | Str string

record task =
  t_id :: "string option"
  t_name :: "string option"
  t_category :: "string option"
  t_priority :: "string option"
  t_estimated_duration :: "int option"
  t_deadline :: deadline_field
  t_actual_duration :: "int option"
  t_duration :: "int option"

text \<open>
  \<open>a / b\<close> on numbers raises \<open>ZeroDivisionError\<close> when \<open>b\<close> is zero.
\<close>

definition truediv :: "rat \<Rightarrow> rat \<Rightarrow> py_error + rat" where
  "truediv a b = (if b = 0 then Inl ZeroDivisionError else Inr (a / b))"

text \<open>
  \<open>round(x, ndigits)\<close> rounds to the nearest multiple of \<open>10 ^ (- ndigits)\<close>, a tie going
  to the even neighbour.
\<close>

definition round_half_even :: "rat \<Rightarrow> int" where
  "round_half_even x =
     (let f = \<lfloor>x\<rfloor>; d = x - of_int f
      in if d < 1 / 2 then f
         else if 1 / 2 < d then f + 1
         else if even f then f else f + 1)"

definition py_round :: "rat \<Rightarrow> nat \<Rightarrow> rat" where
  "py_round x ndigits = of_int (round_half_even (x * 10 ^ ndigits)) / 10 ^ ndigits"

text \<open>\<open>str(n)\<close> for a natural number, and the format \<open>{x:.1f}\<close>.\<close>

definition digit_char :: "nat \<Rightarrow> char" where
  "digit_char n = ''0123456789'' ! (n mod 10)"

fun str_nat :: "nat \<Rightarrow> string" where
  "str_nat n = (if n < 10 then [digit_char n] else str_nat (n div 10) @ [digit_char n])"

declare str_nat.simps [simp del]

definition format_1f :: "rat \<Rightarrow> string" where
  "format_1f x =
     (let n = round_half_even (x * 10); a = nat \<bar>n\<bar>
      in (if n < 0 then ''-'' else []) @ str_nat (a div 10) @ ''.'' @ [digit_char a])"

text \<open>\<open>" ".join(parts)\<close>\<close>

fun join_space :: "string list \<Rightarrow> string" where
  "join_space [] = []"
| "join_space [s] = s"
| "join_space (s # r) = s @ '' '' @ join_space r"

section \<open>Memory bank (src/memory/memory\_bank.py)\<close>

record task_record =
  r_task_id :: "string option"
  r_task_name :: "string option"
  r_category :: "string option"
  r_estimated_duration :: "int option"
  r_actual_duration :: "int option"
  r_completed_at :: string
  r_priority :: "string option"
  r_success :: bool

text \<open>
  \<open>self.memory\<close>: the preferences (key to stored value; the values the modelled code reads
  are lists of category names) and the task history. The metadata block and the write to
  disk that follow every mutation do not change these two fields.
\<close>

record memory =
  user_preferences :: "string \<rightharpoonup> string list"
  task_history :: "task_record list"

text \<open>\<open>get_preference(key, default)\<close>\<close>

definition get_preference :: "memory \<Rightarrow> string \<Rightarrow> string list \<Rightarrow> string list" where
  "get_preference m key dflt =
     (case user_preferences m key of Some v \<Rightarrow> v | None \<Rightarrow> dflt)"

text \<open>The record \<open>store_task_completion\<close> builds from the task; \<open>completed_at\<close> is the
  ISO text of the completion time.\<close>

definition make_task_record :: "task \<Rightarrow> string \<Rightarrow> int option \<Rightarrow> task_record" where
  "make_task_record t completed_at actual_duration_minutes =
     \<lparr> r_task_id = t_id t,
       r_task_name = t_name t,
       r_category = t_category t,
       r_estimated_duration = t_estimated_duration t,
       r_actual_duration = actual_duration_minutes,
       r_completed_at = completed_at,
       r_priority = t_priority t,
       r_success = True \<rparr>"

text \<open>
  \<open>store_task_completion\<close>: append the record, then
  \<open>if len(history) > 1000: history = history[-1000:]\<close>. The slice \<open>xs[-1000:]\<close> of a list
  longer than 1000 drops its first \<open>len(xs) - 1000\<close> elements.
\<close>

definition store_task_completion :: "memory \<Rightarrow> task \<Rightarrow> string \<Rightarrow> int option \<Rightarrow> memory" where
  "store_task_completion m t completed_at actual_duration_minutes =
     (let h = task_history m @ [make_task_record t completed_at actual_duration_minutes]
      in if length h > 1000
         then m\<lparr>task_history := drop (length h - 1000) h\<rparr>
         else m\<lparr>task_history := h\<rparr>)"

section \<open>Reflection agent (src/agents/reflection\_agent.py)\<close>

record completion_analysis =
  a_planned_tasks :: nat
  a_completed_tasks :: nat
  a_incomplete_tasks :: int
  a_completion_rate :: rat
  a_status :: string

definition get_completion_status :: "rat \<Rightarrow> string" where
  "get_completion_status rate =
     (if rate \<ge> 90 then ''excellent''
      else if rate \<ge> 70 then ''good''
      else if rate \<ge> 50 then ''fair''
      else ''needs_improvement'')"

definition analyze_completion :: "task list \<Rightarrow> task list \<Rightarrow> py_error + completion_analysis" where
  "analyze_completion completed planned =
     (let planned_count = length planned;
          completed_count = length completed
      in case (if planned_count = 0 then Inr 0
               else case truediv (of_nat completed_count) (of_nat planned_count) of
                      Inl e \<Rightarrow> Inl e
                    | Inr q \<Rightarrow> Inr (q * 100)) of
           Inl e \<Rightarrow> Inl e
         | Inr completion_rate \<Rightarrow>
             Inr \<lparr> a_planned_tasks = planned_count,
                   a_completed_tasks = completed_count,
                   a_incomplete_tasks = int planned_count - int completed_count,
                   a_completion_rate = py_round completion_rate 1,
                   a_status = get_completion_status completion_rate \<rparr>)"

record learning_insights =
  l_average_duration :: "rat option"
  l_task_count :: nat
  l_insight :: string

definition learn_from_session :: "task list \<Rightarrow> py_error + learning_insights" where
  "learn_from_session completed =
     (if completed = []
      then Inr \<lparr> l_average_duration = None, l_task_count = 0,
                 l_insight = ''No completed tasks to learn from yet.'' \<rparr>
      else
        let total_duration =
              sum_list (map (\<lambda>t. case t_actual_duration t of
                                    Some d \<Rightarrow> d
                                  | None \<Rightarrow> (case t_duration t of Some d \<Rightarrow> d | None \<Rightarrow> 0))
                            completed)
        in case truediv (of_int total_duration) (of_nat (length completed)) of
             Inl e \<Rightarrow> Inl e
           | Inr avg_duration \<Rightarrow>
               Inr \<lparr> l_average_duration = Some avg_duration,
                     l_task_count = length completed,
                     l_insight = ''Learned from completed tasks successfully.'' \<rparr>)"

text \<open>
  The decision of \<open>_should_replan\<close>. The early return for an empty plan has only the keys
  \<open>needed\<close> and \<open>reason\<close>; the other two keys are optional fields.
\<close>

record replan_decision =
  needed :: bool
  reason :: string
  d_incomplete_tasks :: "int option"
  d_completion_rate :: "rat option"

definition low_completion_text :: "rat \<Rightarrow> string" where
  "low_completion_text completion_rate =
     ''Low completion rate ('' @ format_1f completion_rate @ ''%). ''
       @ ''Tasks may need re-prioritization.''"

definition high_priority_text :: "nat \<Rightarrow> string" where
  "high_priority_text n =
     str_nat n @ '' high-priority tasks incomplete. ''
       @ ''Recommend re-planning remaining tasks.''"

definition should_replan :: "task list \<Rightarrow> task list \<Rightarrow> py_error + replan_decision" where
  "should_replan completed planned =
     (let planned_count = length planned;
          completed_count = length completed
      in if planned_count = 0
         then Inr \<lparr> needed = False, reason = ''No planned tasks to review'',
                    d_incomplete_tasks = None, d_completion_rate = None \<rparr>
         else
           case truediv (of_nat completed_count) (of_nat planned_count) of
             Inl e \<Rightarrow> Inl e
           | Inr q \<Rightarrow>
               let completion_rate = q * 100;
                   reasons1 = (if completion_rate < 50
                               then [low_completion_text completion_rate] else []);
                   incomplete_high_priority =
                     filter (\<lambda>t. t_priority t = Some ''high''
                                  \<and> t_id t \<notin> set (map t_id completed)) planned;
                   fires2 = (length incomplete_high_priority \<ge> 2);
                   reasons = reasons1 @
                     (if fires2 then [high_priority_text (length incomplete_high_priority)]
                      else [])
               in Inr \<lparr> needed = (completion_rate < 50 \<or> fires2),
                        reason = (if reasons \<noteq> [] then join_space reasons
                                  else ''On track, no re-planning needed''),
                        d_incomplete_tasks = Some (int planned_count - int completed_count),
                        d_completion_rate = Some (py_round completion_rate 1) \<rparr>)"

text \<open>
  \<open>_analyze_patterns\<close> hands the stored history to the habit analyzer tool; what the
  reflection reads of its answer is the list of peak hours and the estimation tendency.
  The answer (or the exception the tool raised) is a parameter of \<open>reflect_and_learn\<close>.
\<close>

record pattern_insights =
  p_productivity_hours :: "nat list"
  p_estimation_tendency :: "string option"

definition generate_recommendations ::
    "completion_analysis \<Rightarrow> pattern_insights \<Rightarrow> string list" where
  "generate_recommendations completion patterns =
     (if a_status completion = ''needs_improvement''
      then [''Consider reducing daily workload or extending deadlines'']
      else if a_status completion = ''excellent''
      then [''Great job! You can handle slightly more tasks'']
      else [])
     @ (case p_productivity_hours patterns of
          [] \<Rightarrow> []
        | peak # _ \<Rightarrow>
            [''Schedule critical tasks around '' @ str_nat peak @ '':00 for best results''])
     @ (if p_estimation_tendency patterns = Some ''underestimates''
        then [''Add 20-30% buffer to your time estimates'']
        else if p_estimation_tendency patterns = Some ''overestimates''
        then [''You can reduce time estimates by 15-20%'']
        else [])"

record reflection =
  completion :: completion_analysis
  learning :: learning_insights
  replan_needed :: bool
  replan_reason :: string
  recommendations :: "string list"

text \<open>
  \<open>reflect_and_learn\<close>, in the order of the source: completion analysis, pattern
  analysis, learning, re-plan decision, recommendations. \<open>_learn_from_session\<close> returns no
  \<open>patterns_learned\<close>, so \<open>_update_memory\<close> stores nothing. An exception in any step leaves
  the function (it is logged and raised again).
\<close>

definition reflect_and_learn ::
    "task list \<Rightarrow> task list \<Rightarrow> py_error + pattern_insights \<Rightarrow> py_error + reflection" where
  "reflect_and_learn completed_tasks planned_tasks analyzed_patterns =
     (case analyze_completion completed_tasks planned_tasks of
        Inl e \<Rightarrow> Inl e
      | Inr completion_analysis \<Rightarrow>
     (case analyzed_patterns of
        Inl e \<Rightarrow> Inl e
      | Inr patterns \<Rightarrow>
     (case learn_from_session completed_tasks of
        Inl e \<Rightarrow> Inl e
      | Inr learning_insights \<Rightarrow>
     (case should_replan completed_tasks planned_tasks of
        Inl e \<Rightarrow> Inl e
      | Inr replan \<Rightarrow>
          Inr \<lparr> completion = completion_analysis,
                learning = learning_insights,
                replan_needed = needed replan,
                replan_reason = reason replan,
                recommendations = generate_recommendations completion_analysis patterns \<rparr>))))"

section \<open>Priority agent (src/utils/helpers.py, src/agents/priority\_agent.py)\<close>

text \<open>\<open>calculate_priority_score\<close> of helpers.py, line by line.\<close>

definition calculate_priority_score :: "int \<Rightarrow> int \<Rightarrow> int \<Rightarrow> int option \<Rightarrow> rat" where
  "calculate_priority_score urgency importance effort deadline_days =
     (let base_score = of_int urgency * (4 / 10) + of_int importance * (4 / 10);
          effort_factor = of_int (6 - effort) * (1 / 10);
          deadline_factor =
            (case deadline_days of
               None \<Rightarrow> 0
             | Some d \<Rightarrow> if d \<le> 1 then 5 / 10
                         else if d \<le> 3 then 3 / 10
                         else if d \<le> 7 then 1 / 10
                         else 0);
          total_score = base_score + effort_factor + deadline_factor
      in py_round total_score 2)"



record scoring_details =
  s_urgency :: int
  s_importance :: int
  s_effort :: int
  s_deadline_days :: "int option"

text \<open>
  A scored task is the task dictionary with the keys \<open>priority_score\<close>,
  \<open>scoring_details\<close>, \<open>rank\<close> and \<open>adjusted_for_preferences\<close> added (the last two are set
  later; a missing \<open>adjusted_for_preferences\<close> is \<open>False\<close> here). The source updates the
  dictionaries in place; the model returns new values, which is the same as long as no
  dictionary object occurs twice in the input list.
\<close>

record scored_task =
  st_task :: task
  priority_score :: rat
  scoring_details :: scoring_details
  rank :: "nat option"
  adjusted_for_preferences :: bool

definition priority_map :: "(string \<times> int) list" where
  "priority_map = [(''high'', 5), (''medium'', 3), (''low'', 1)]"

definition importance_map :: "(string \<times> int) list" where
  "importance_map =
     [(''meeting'', 4), (''coding'', 3), (''review'', 3), (''planning'', 3),
      (''learning'', 2), (''email'', 2), (''general'', 2)]"

text \<open>\<open>d.get(k, default)\<close> on a literal dictionary.\<close>

definition dict_get :: "(string \<times> int) list \<Rightarrow> string \<Rightarrow> int \<Rightarrow> int" where
  "dict_get d k dflt = (case map_of d k of Some v \<Rightarrow> v | None \<Rightarrow> dflt)"

definition effort_of :: "int \<Rightarrow> int" where
  "effort_of duration =
     (if duration \<le> 30 then 1
      else if duration \<le> 60 then 2
      else if duration \<le> 120 then 3
      else if duration \<le> 180 then 4
      else 5)"

text \<open>
  The deadline days of \<open>_score_task\<close>. The parameter \<open>days_until\<close> stands for
  \<open>(datetime.fromisoformat(s) - datetime.now()).days\<close>: it is \<open>None\<close> when that expression
  raises (the text does not parse), which the bare \<open>except\<close> turns into
  \<open>deadline_days = None\<close>. \<open>if task.get("deadline")\<close> is false for a missing key, for
  \<open>None\<close> and for the empty string.
\<close>

definition deadline_days_of :: "(string \<Rightarrow> int option) \<Rightarrow> task \<Rightarrow> int option" where
  "deadline_days_of days_until t =
     (case t_deadline t of
        Str s \<Rightarrow>
          if s = [] then None
          else (case days_until s of
                  Some days_remaining \<Rightarrow> Some (max days_remaining 0)
                | None \<Rightarrow> None)
      | Absent \<Rightarrow> None
      | Null \<Rightarrow> None)"

definition score_task :: "(string \<Rightarrow> int option) \<Rightarrow> task \<Rightarrow> scored_task" where
  "score_task days_until t =
     (let urgency = dict_get priority_map
                      (case t_priority t of Some p \<Rightarrow> p | None \<Rightarrow> ''medium'') 3;
          importance = dict_get importance_map
                      (case t_category t of Some c \<Rightarrow> c | None \<Rightarrow> ''general'') 2;
          duration = (case t_estimated_duration t of Some d \<Rightarrow> d | None \<Rightarrow> 60);
          effort = effort_of duration;
          deadline_days = deadline_days_of days_until t;
          score = calculate_priority_score urgency importance effort deadline_days
      in \<lparr> st_task = t,
           priority_score = score,
           scoring_details = \<lparr> s_urgency = urgency, s_importance = importance,
                                s_effort = effort, s_deadline_days = deadline_days \<rparr>,
           rank = None,
           adjusted_for_preferences = False \<rparr>)"

text \<open>
  \<open>sorted(xs, key=..., reverse=True)\<close>: descending, and still stable (elements with equal
  keys keep their order). The list is reversed, sorted stably in ascending order, and
  reversed again.
\<close>

definition sorted_reverse :: "('a \<Rightarrow> rat) \<Rightarrow> 'a list \<Rightarrow> 'a list" where
  "sorted_reverse key xs = rev (sort_key key (rev xs))"

text \<open>\<open>for idx, task in enumerate(tasks): task["rank"] = idx + 1\<close>, from index \<open>idx\<close> on.\<close>

fun assign_ranks :: "nat \<Rightarrow> scored_task list \<Rightarrow> scored_task list" where
  "assign_ranks idx [] = []"
| "assign_ranks idx (t # ts) = t\<lparr>rank := Some (idx + 1)\<rparr> # assign_ranks (idx + 1) ts"

text \<open>The body of the first loop of \<open>_apply_user_preferences\<close>.\<close>

definition adjust_task :: "string list \<Rightarrow> scored_task \<Rightarrow> scored_task" where
  "adjust_task preferred_categories t =
     (if (case t_category (st_task t) of
            Some c \<Rightarrow> c \<in> set preferred_categories
          | None \<Rightarrow> False)
      then t\<lparr>priority_score := priority_score t + 2 / 10,
             adjusted_for_preferences := True\<rparr>
      else t)"

definition apply_user_preferences :: "memory \<Rightarrow> scored_task list \<Rightarrow> scored_task list" where
  "apply_user_preferences m tasks =
     (let preferred_categories =
            get_preference m ''morning_categories'' [''meeting'', ''review'']
      in assign_ranks 0
           (sorted_reverse priority_score (map (adjust_task preferred_categories) tasks)))"

text \<open>
  The list \<open>sorted_tasks\<close> of \<open>prioritize_tasks\<close> (the first ranking, before the
  preference adjustment), and the list \<open>adjusted_tasks\<close> it returns as
  \<open>prioritized_tasks\<close>.
\<close>

definition sorted_tasks :: "(string \<Rightarrow> int option) \<Rightarrow> task list \<Rightarrow> scored_task list" where
  "sorted_tasks days_until tasks =
     assign_ranks 0 (sorted_reverse priority_score (map (score_task days_until) tasks))"

definition prioritize_tasks ::
    "memory \<Rightarrow> (string \<Rightarrow> int option) \<Rightarrow> task list \<Rightarrow> scored_task list" where
  "prioritize_tasks m days_until tasks =
     apply_user_preferences m (sorted_tasks days_until tasks)"

section \<open>Planner agent (src/agents/planner\_agent.py)\<close>

text \<open>
  A schedule block. \<open>start_time\<close> and \<open>end_time\<close> are ISO texts of datetimes in one time
  zone; a datetime is the number of minutes on the time line here (two such texts are
  equal exactly when the datetimes are), and \<open>timedelta(minutes=n)\<close> adds \<open>n\<close>. Break
  blocks have no \<open>category\<close> and no \<open>priority\<close> key. The evaluator reads \<open>priority\<close> and
  \<open>duration\<close> with \<open>get\<close>, so these are optional fields.
\<close>

record block =
  b_type :: string
  b_name :: string
  b_category :: "string option"
  b_priority :: "string option"
  b_start_time :: int
  b_end_time :: int
  b_duration :: "int option"

definition rank_map :: "(string \<times> int) list" where
  "rank_map = [(''high'', 1), (''medium'', 2), (''low'', 3)]"

text \<open>
  The sort key of \<open>_schedule_tasks\<close> is the pair
  \<open>(rank_map.get(x["priority"], 2), x.get("deadline", ""))\<close>. Its second component is the
  empty string when the key \<open>deadline\<close> is missing, and \<open>None\<close> when the key holds \<open>None\<close>.
  \<open>deadline_text\<close> is that component as a string; \<open>None\<close> is given the empty string, which
  is only used where every deadline it is compared with is \<open>None\<close> as well (see
  \<open>unorderable\<close>), so that they tie as they do in Python.
\<close>

definition deadline_text :: "task \<Rightarrow> string" where
  "deadline_text x = (case t_deadline x of Absent \<Rightarrow> [] | Null \<Rightarrow> [] | Str s \<Rightarrow> s)"

definition priority_rank :: "task \<Rightarrow> int" where
  "priority_rank x =
     dict_get rank_map (case t_priority x of Some p \<Rightarrow> p | None \<Rightarrow> []) 2"

definition schedule_key :: "task \<Rightarrow> int \<times> string" where
  "schedule_key x = (priority_rank x, deadline_text x)"

text \<open>
  Two keys with the same rank whose deadlines are \<open>None\<close> and a string cannot be ordered:
  the tuple comparison reaches \<open>None < str\<close>, a \<open>TypeError\<close>.
\<close>

definition unorderable :: "task \<Rightarrow> task \<Rightarrow> bool" where
  "unorderable x y =
     (priority_rank x = priority_rank y \<and> (t_deadline x = Null) \<noteq> (t_deadline y = Null))"

text \<open>
  \<open>sorted(tasks, key=...)\<close>. The key is computed for every element first, so a task
  without the key \<open>priority\<close> raises \<open>KeyError\<close>. The sort is stable; when two tasks of the
  list are unorderable no order of the list can be justified by comparisons that all
  succeed, and the sort raises \<open>TypeError\<close>; otherwise every comparison it makes succeeds
  and agrees with the order of \<open>schedule_key\<close>.
\<close>

definition sort_for_schedule :: "task list \<Rightarrow> py_error + task list" where
  "sort_for_schedule tasks =
     (if list_ex (\<lambda>x. t_priority x = None) tasks then Inl KeyError
      else if list_ex (\<lambda>x. list_ex (unorderable x) tasks) tasks then Inl TypeError
      else Inr (sort_key schedule_key tasks))"

text \<open>
  The loop of \<open>_schedule_tasks\<close> from the time \<open>current\<close> on: a task block, then its
  break. \<open>t["name"]\<close>, \<open>t["category"]\<close> and \<open>t["priority"]\<close> raise \<open>KeyError\<close> on a missing
  key.
\<close>

fun layout :: "int \<Rightarrow> task list \<Rightarrow> py_error + block list" where
  "layout current [] = Inr []"
| "layout current (t # ts) =
     (let duration = (case t_estimated_duration t of Some d \<Rightarrow> d | None \<Rightarrow> 60);
          start_time = current;
          end_time = start_time + duration
      in case t_name t of None \<Rightarrow> Inl KeyError | Some name \<Rightarrow>
         case t_category t of None \<Rightarrow> Inl KeyError | Some category \<Rightarrow>
         case t_priority t of None \<Rightarrow> Inl KeyError | Some priority \<Rightarrow>
           let break_len = (if duration \<ge> 60 then 15 else 5);
               break_start = end_time;
               break_end = break_start + break_len
           in case layout break_end ts of
                Inl e \<Rightarrow> Inl e
              | Inr rest \<Rightarrow>
                  Inr (\<lparr> b_type = ''task'', b_name = name, b_category = Some category,
                          b_priority = Some priority, b_start_time = start_time,
                          b_end_time = end_time, b_duration = Some duration \<rparr>
                       # \<lparr> b_type = ''break'',
                           b_name = str_nat (nat break_len) @ ''-minute break'',
                           b_category = None, b_priority = None,
                           b_start_time = break_start, b_end_time = break_end,
                           b_duration = Some break_len \<rparr>
                       # rest))"

text \<open>
  The invariant of the layout loop, as a check on a block list that starts at time \<open>c\<close>:
  blocks come in pairs, a task block from \<open>c\<close> on and its break right after it.
\<close>

fun chained :: "int \<Rightarrow> block list \<Rightarrow> bool" where
  "chained c [] = True"
| "chained c [t] = False"
| "chained c (t # b # rest) =
     (b_type t = ''task'' \<and> b_type b = ''break'' \<and> b_start_time t = c \<and>
      (case b_duration t of
         None \<Rightarrow> False
       | Some d \<Rightarrow>
           b_end_time t = c + d \<and> b_start_time b = b_end_time t \<and>
           b_duration b = Some (if d \<ge> 60 then 15 else 5) \<and>
           b_end_time b = b_start_time b + (if d \<ge> 60 then 15 else 5) \<and>
           chained (b_end_time b) rest))"

text \<open>\<open>_schedule_tasks\<close>; \<open>anchor\<close> is 09:00 of the current day.\<close>

definition schedule_tasks :: "int \<Rightarrow> task list \<Rightarrow> py_error + block list" where
  "schedule_tasks anchor tasks =
     (case sort_for_schedule tasks of
        Inl e \<Rightarrow> Inl e
      | Inr sorted_list \<Rightarrow> layout anchor sorted_list)"

text \<open>
  The plan dictionary: what \<open>create_plan\<close> returns and \<open>evaluate_plan\<close> reads. Every key
  is optional for the evaluator. \<open>create_plan\<close> sets \<open>scheduled_tasks\<close>,
  \<open>formatted_schedule\<close> (a text rendering of the schedule, left out here), \<open>task_count\<close>
  and \<open>total_work_minutes\<close>; it sets no key \<open>includes_breaks\<close>.
\<close>

record plan =
  scheduled_tasks :: "block list option"
  task_count :: "nat option"
  total_work_minutes :: "int option"
  includes_breaks :: "bool option"

definition block_minutes :: "block \<Rightarrow> int" where
  "block_minutes b = (case b_duration b of Some d \<Rightarrow> d | None \<Rightarrow> 0)"

definition create_plan :: "int \<Rightarrow> task list \<Rightarrow> py_error + plan" where
  "create_plan anchor tasks =
     (case schedule_tasks anchor tasks of
        Inl e \<Rightarrow> Inl e
      | Inr schedule \<Rightarrow>
          let task_items = filter (\<lambda>b. b_type b = ''task'') schedule;
              total_work = sum_list (map block_minutes task_items)
          in Inr \<lparr> scheduled_tasks = Some schedule,
                   task_count = Some (length task_items),
                   total_work_minutes = Some total_work,
                   includes_breaks = None \<rparr>)"

section \<open>Plan evaluator (src/evaluation/plan\_evaluator.py)\<close>

text \<open>
  The scores start as the float 25.0 and change by whole numbers only; they are integers
  here. \<open>plan.get("scheduled_tasks", [])\<close> and the sum of \<open>t.get("duration", 0)\<close> over
  it, which counts task blocks and break blocks alike.
\<close>

definition plan_blocks :: "plan \<Rightarrow> block list" where
  "plan_blocks p = (case scheduled_tasks p of Some bs \<Rightarrow> bs | None \<Rightarrow> [])"

definition total_duration :: "plan \<Rightarrow> int" where
  "total_duration p = sum_list (map block_minutes (plan_blocks p))"

definition score_time_efficiency :: "plan \<Rightarrow> int" where
  "score_time_efficiency p =
     (if plan_blocks p = [] then 0
      else
        let score1 = 25 - (if total_duration p < 360 then 5
                           else if total_duration p > 480 then 5 else 0);
            score2 = score1 - (if length (plan_blocks p) < 3 then 3 else 0)
        in max 0 score2)"

text \<open>The loop of \<open>_score_priority_alignment\<close> over \<open>enumerate(scheduled_tasks)\<close>.\<close>

fun alignment_loop :: "nat \<Rightarrow> block list \<Rightarrow> int \<Rightarrow> int" where
  "alignment_loop idx [] score = score"
| "alignment_loop idx (b # rest) score =
     (let task_priority = (case b_priority b of Some p \<Rightarrow> p | None \<Rightarrow> ''medium'')
      in alignment_loop (idx + 1) rest
           (if task_priority = ''high'' \<and> idx > 2 then score - 3
            else if task_priority = ''low'' \<and> idx = 0 then score - 2
            else score))"

text \<open>\<open>original_tasks\<close> is a parameter the source never reads.\<close>

definition score_priority_alignment :: "plan \<Rightarrow> task list \<Rightarrow> int" where
  "score_priority_alignment p original_tasks = max 0 (alignment_loop 0 (plan_blocks p) 25)"

fun feasibility_loop :: "block list \<Rightarrow> int \<Rightarrow> int" where
  "feasibility_loop [] score = score"
| "feasibility_loop (b # rest) score =
     feasibility_loop rest (if block_minutes b > 180 then score - 2 else score)"

definition score_feasibility :: "plan \<Rightarrow> int" where
  "score_feasibility p =
     (let score1 = 25 - (if total_duration p > 540 then 10
                         else if total_duration p > 480 then 5 else 0)
      in max 0 (feasibility_loop (plan_blocks p) score1))"

text \<open>The preferences dictionary the evaluator reads: only the key \<open>max_work_hours\<close>.\<close>

record preferences =
  max_work_hours :: "rat option"

definition score_work_life_balance :: "plan \<Rightarrow> preferences \<Rightarrow> int" where
  "score_work_life_balance p user_prefs =
     (let has_breaks = (case includes_breaks p of Some v \<Rightarrow> v | None \<Rightarrow> False);
          score1 = (if \<not> has_breaks then 25 - 5 else 25);
          score2 = (if total_duration p > 600 then score1 - 10 else score1);
          preferred_hours = (case max_work_hours user_prefs of Some h \<Rightarrow> h | None \<Rightarrow> 8);
          score3 = (if of_int (total_duration p) > preferred_hours * 60
                    then score2 - 5 else score2)
      in max 0 score3)"

record scores =
  time_efficiency :: int
  priority_alignment :: int
  feasibility :: int
  work_life_balance :: int

definition generate_feedback :: "scores \<Rightarrow> string list" where
  "generate_feedback sc =
     (let feedback =
            (if time_efficiency sc < 15
             then [''Time efficiency could be improved. Consider optimizing task scheduling.'']
             else [])
          @ (if priority_alignment sc < 15
             then [''High-priority tasks should be scheduled earlier in the day.'']
             else [])
          @ (if feasibility sc < 15
             then [''The plan might be too ambitious. Consider reducing workload or extending timeline.'']
             else [])
          @ (if work_life_balance sc < 15
             then [''Don't forget work-life balance. Add breaks and limit total work hours.'']
             else [])
      in if feedback = [] then [''Excellent plan! Well-balanced and achievable.'']
         else feedback)"

definition generate_plan_recommendations :: "scores \<Rightarrow> string list" where
  "generate_plan_recommendations sc =
     (if time_efficiency sc < 20
      then [''Add more tasks to fill available time efficiently''] else [])
     @ (if priority_alignment sc < 20
        then [''Move high-priority tasks to morning slots''] else [])
     @ (if feasibility sc < 20
        then [''Reduce task durations or split complex tasks''] else [])
     @ (if work_life_balance sc < 20
        then [''Schedule 15-minute breaks every 90 minutes''] else [])"

definition calculate_grade :: "int \<Rightarrow> string" where
  "calculate_grade total_score =
     (if total_score \<ge> 90 then ''A''
      else if total_score \<ge> 80 then ''B''
      else if total_score \<ge> 70 then ''C''
      else if total_score \<ge> 60 then ''D''
      else ''F'')"

record evaluation =
  total_score :: int
  max_score :: int
  percentage :: rat
  grade :: string
  scores_breakdown :: scores
  feedback :: "string list"
  plan_recommendations :: "string list"

text \<open>\<open>evaluate_plan\<close>; \<open>user_preferences or {}\<close> turns a missing argument into the empty
  dictionary.\<close>

definition evaluate_plan :: "plan \<Rightarrow> task list \<Rightarrow> preferences option \<Rightarrow> evaluation" where
  "evaluate_plan p original_tasks user_preferences_arg =
     (let sc = \<lparr> time_efficiency = score_time_efficiency p,
                 priority_alignment = score_priority_alignment p original_tasks,
                 feasibility = score_feasibility p,
                 work_life_balance =
                   score_work_life_balance p
                     (case user_preferences_arg of
                        Some prefs \<Rightarrow> prefs
                      | None \<Rightarrow> \<lparr> max_work_hours = None \<rparr>) \<rparr>;
          total = time_efficiency sc + priority_alignment sc + feasibility sc
                  + work_life_balance sc
      in \<lparr> total_score = total,
           max_score = 100,
           percentage = py_round (of_int total / 100 * 100) 1,
           grade = calculate_grade total,
           scores_breakdown = sc,
           feedback = generate_feedback sc,
           plan_recommendations = generate_plan_recommendations sc \<rparr>)"

section \<open>Concrete inputs\<close>

text \<open>A task as the plain-text input path produces it: no id, no deadline key.\<close>

definition plain_task :: task where
  "plain_task =
     \<lparr> t_id = None, t_name = Some ''Task'', t_category = Some ''general'',
       t_priority = Some ''medium'', t_estimated_duration = Some 60, t_deadline = Absent,
       t_actual_duration = None, t_duration = None \<rparr>"

text \<open>Two high-priority tasks with no id.\<close>

definition task_a :: task where
  "task_a = plain_task\<lparr>t_name := Some ''taskA'', t_priority := Some ''high''\<rparr>"

definition task_b :: task where
  "task_b = plain_task\<lparr>t_name := Some ''taskB'', t_priority := Some ''high''\<rparr>"


text \<open>
  A low-priority half-hour meeting and a medium-priority two-hour coding task, in this
  input order; a memory bank with no stored preference; a clock that parses nothing.
\<close>

definition short_meeting :: task where
  "short_meeting =
     plain_task\<lparr>t_name := Some ''A'', t_category := Some ''meeting'',
                t_priority := Some ''low'', t_estimated_duration := Some 30\<rparr>"

definition long_coding :: task where
  "long_coding =
     plain_task\<lparr>t_name := Some ''B'', t_category := Some ''coding'',
                t_priority := Some ''medium'', t_estimated_duration := Some 120\<rparr>"

definition empty_memory :: memory where
  "empty_memory = \<lparr> user_preferences = Map.empty, task_history = [] \<rparr>"

definition no_parse :: "string \<Rightarrow> int option" where
  "no_parse s = None"



section \<open>Properties of the memory bank\<close>

text \<open>
  Claim C8. After every \<open>store_task_completion\<close> call the task history has at most 1000
  entries, whatever its length was before; the new history is a suffix of the old history
  with the new record appended (the entries dropped are the oldest ones, at the front), it
  ends with the new record, and it holds the last 1000 entries of that list when the list
  is longer than 1000 (\<open>min 1000\<close> of its length in general).
\<close>

theorem store_task_completion_bounded_fifo:
  "length (task_history (store_task_completion m t ct ad)) \<le> 1000 \<and>
   length (task_history (store_task_completion m t ct ad))
     = min 1000 (Suc (length (task_history m))) \<and>
   take (Suc (length (task_history m)) - 1000) (task_history m @ [make_task_record t ct ad])
     @ task_history (store_task_completion m t ct ad)
     = task_history m @ [make_task_record t ct ad] \<and>
   last (task_history (store_task_completion m t ct ad)) = make_task_record t ct ad"
  by (simp add: store_task_completion_def Let_def min_def)


section \<open>Properties of the reflection agent\<close>

lemma format_1f_zero: "format_1f 0 = ''0.0''"
  by (simp add: format_1f_def round_half_even_def str_nat.simps digit_char_def)

lemma str_nat_two: "str_nat (Suc (Suc 0)) = ''2''"
  by (simp add: str_nat.simps digit_char_def)



lemma py_round_zero: "py_round 0 n = 0"
  by (simp add: py_round_def round_half_even_def)

text \<open>
  Claim C1, as stated, fails: with \<open>completed = []\<close> and two planned high-priority tasks
  that have no id, the list of completed ids is empty, so \<open>t.get("id") not in [...]\<close> holds
  for both tasks (\<open>None\<close> is not in the empty list), trigger 2 fires, and the reason is not
  the low-completion-rate text alone.
\<close>

theorem should_replan_no_ids_counterexample:
  "should_replan [] [task_a, task_b]
     = Inr \<lparr> needed = True,
             reason = ''Low completion rate (0.0%). Tasks may need re-prioritization. 2 high-priority tasks incomplete. Recommend re-planning remaining tasks.'',
             d_incomplete_tasks = Some 2,
             d_completion_rate = Some 0 \<rparr> \<and>
   ''Low completion rate (0.0%). Tasks may need re-prioritization. 2 high-priority tasks incomplete. Recommend re-planning remaining tasks.''
     \<noteq> low_completion_text 0 \<and>
   t_id task_a = None \<and> t_id task_b = None"
  by (simp add: should_replan_def truediv_def Let_def low_completion_text_def
      high_priority_text_def format_1f_zero str_nat_two py_round_zero
      task_a_def task_b_def plain_task_def)

text \<open>
  Claim C1, amended: for \<open>completed = []\<close> and any two planned tasks of priority
  \<open>high\<close> with no id, the decision has completion rate 0 and \<open>needed = True\<close>, and its
  reason is the low-completion-rate text followed by the text of trigger 2
  (\<open>2 high-priority tasks incomplete\<close>): both triggers fire.
\<close>

theorem should_replan_no_ids_both_triggers:
  "should_replan [] [a\<lparr>t_priority := Some ''high'', t_id := None\<rparr>,
                     b\<lparr>t_priority := Some ''high'', t_id := None\<rparr>]
   = Inr \<lparr> needed = True,
           reason = low_completion_text 0 @ '' '' @ high_priority_text 2,
           d_incomplete_tasks = Some 2,
           d_completion_rate = Some 0 \<rparr> \<and>
   low_completion_text 0 @ '' '' @ high_priority_text 2
     = ''Low completion rate (0.0%). Tasks may need re-prioritization. 2 high-priority tasks incomplete. Recommend re-planning remaining tasks.''"
  by (simp add: should_replan_def truediv_def Let_def low_completion_text_def
      high_priority_text_def format_1f_zero str_nat_two py_round_zero
      numeral_2_eq_2)

text \<open>
  Claim C9. With \<open>planned = []\<close> and any completed list, the completion analysis reports
  rate 0, the re-plan decision is \<open>needed = False\<close> with the reason
  \<open>No planned tasks to review\<close>, and \<open>reflect_and_learn\<close> returns a result (no
  \<open>ZeroDivisionError\<close>, nor any other exception of the modelled steps) carrying these
  values, whenever the pattern analysis of the stored history returned.
\<close>

theorem reflect_empty_plan:
  "analyze_completion completed []
     = Inr \<lparr> a_planned_tasks = 0, a_completed_tasks = length completed,
             a_incomplete_tasks = - int (length completed), a_completion_rate = 0,
             a_status = ''needs_improvement'' \<rparr> \<and>
   should_replan completed []
     = Inr \<lparr> needed = False, reason = ''No planned tasks to review'',
             d_incomplete_tasks = None, d_completion_rate = None \<rparr> \<and>
   (\<exists>r. reflect_and_learn completed [] (Inr patterns) = Inr r \<and>
        a_completion_rate (completion r) = 0 \<and> \<not> replan_needed r \<and>
        replan_reason r = ''No planned tasks to review'' \<and> replan_reason r \<noteq> [])"
  by (simp add: analyze_completion_def should_replan_def reflect_and_learn_def
      learn_from_session_def truediv_def py_round_zero get_completion_status_def Let_def)







section \<open>Properties of the priority agent\<close>





lemma sorted_reverse_stable:
  "filter (\<lambda>t. key t = k) (sorted_reverse key xs) = filter (\<lambda>t. key t = k) xs"
  by (simp add: sorted_reverse_def rev_filter [symmetric] sort_key_stable)

lemma sorted_reverse_descending:
  "sorted_wrt (\<lambda>a b. key b \<le> key a) (sorted_reverse key xs)"
proof -
  have "sorted (map key (sort_key key (rev xs)))" by simp
  hence "sorted_wrt (\<lambda>a b. key a \<le> key b) (sort_key key (rev xs))"
    by (simp add: sorted_map)
  thus ?thesis by (simp add: sorted_reverse_def sorted_wrt_rev)
qed

lemma sorted_reverse_mset: "mset (sorted_reverse key xs) = mset xs"
  by (simp add: sorted_reverse_def)


lemma map_score_assign_ranks: "map priority_score (assign_ranks i xs) = map priority_score xs"
  by (induction xs arbitrary: i) auto

lemma descending_assign_ranks:
  "sorted_wrt (\<lambda>a b. priority_score b \<le> priority_score a) (assign_ranks i xs)
   = sorted_wrt (\<lambda>a b. priority_score b \<le> priority_score a) xs"
proof -
  have "sorted_wrt (\<lambda>a b. priority_score b \<le> priority_score a) ys
        = sorted_wrt (\<lambda>a b. b \<le> a) (map priority_score ys)" for ys :: "scored_task list"
    by (simp add: sorted_wrt_map)
  thus ?thesis by (simp add: map_score_assign_ranks)
qed

lemma filter_assign_ranks:
  "map (\<lambda>t. t\<lparr>rank := None\<rparr>) (filter (\<lambda>t. priority_score t = k) (assign_ranks i xs))
   = map (\<lambda>t. t\<lparr>rank := None\<rparr>) (filter (\<lambda>t. priority_score t = k) xs)"
  by (induction xs arbitrary: i) auto

lemma adjust_task_rank:
  "priority_score (adjust_task p (t\<lparr>rank := r\<rparr>)) = priority_score (adjust_task p t) \<and>
   (adjust_task p (t\<lparr>rank := r\<rparr>))\<lparr>rank := None\<rparr> = (adjust_task p t)\<lparr>rank := None\<rparr>"
  by (simp add: adjust_task_def)

lemma filter_adjust_assign_ranks:
  "map (\<lambda>t. t\<lparr>rank := None\<rparr>)
     (filter (\<lambda>t. priority_score t = k) (map (adjust_task p) (assign_ranks i xs)))
   = map (\<lambda>t. t\<lparr>rank := None\<rparr>)
     (filter (\<lambda>t. priority_score t = k) (map (adjust_task p) xs))"
  by (induction xs arbitrary: i) (auto simp: adjust_task_rank)

lemma unrank_assign_ranks:
  "map (\<lambda>t. t\<lparr>rank := None\<rparr>) (map (adjust_task p) (assign_ranks i xs))
   = map (\<lambda>t. t\<lparr>rank := None\<rparr>) (map (adjust_task p) xs) \<and>
   map (\<lambda>t. t\<lparr>rank := None\<rparr>) (assign_ranks i xs) = map (\<lambda>t. t\<lparr>rank := None\<rparr>) xs"
  by (induction xs arbitrary: i) (auto simp: adjust_task_rank)

lemma prioritize_tasks_mset:
  "mset (map (\<lambda>t. t\<lparr>rank := None\<rparr>) (prioritize_tasks m d tasks))
   = mset (map (\<lambda>t. t\<lparr>rank := None\<rparr>)
       (map (adjust_task (get_preference m ''morning_categories'' [''meeting'', ''review'']))
          (map (score_task d) tasks)))"
proof -
  let ?p = "get_preference m ''morning_categories'' [''meeting'', ''review'']"
  let ?u = "\<lambda>t::scored_task. t\<lparr>rank := None\<rparr>"
  let ?first = "sorted_reverse priority_score (map (score_task d) tasks)"
  have "mset (map ?u (prioritize_tasks m d tasks))
      = mset (map ?u (sorted_reverse priority_score (map (adjust_task ?p) (assign_ranks 0 ?first))))"
    by (simp add: prioritize_tasks_def apply_user_preferences_def sorted_tasks_def Let_def
        unrank_assign_ranks)
  also have "\<dots> = mset (map ?u (map (adjust_task ?p) (assign_ranks 0 ?first)))"
    by (simp only: mset_map sorted_reverse_mset)
  also have "\<dots> = mset (map ?u (map (adjust_task ?p) ?first))"
    by (simp only: unrank_assign_ranks)
  also have "\<dots> = mset (map ?u (map (adjust_task ?p) (map (score_task d) tasks)))"
    by (simp only: mset_map sorted_reverse_mset)
  finally show ?thesis .
qed

text \<open>
  Claim C2, amended: the returned list is in descending order of the final score, and
  the tasks that share a final score appear in the order of the first ranking (the scored
  input sorted descending by the unadjusted score, which is itself stable with respect to
  the input order); ranks are 1, 2, ... in list order, and the list holds exactly the
  scored and adjusted input tasks.
\<close>

theorem prioritize_tasks_order:
  "sorted_wrt (\<lambda>a b. priority_score b \<le> priority_score a) (prioritize_tasks m d tasks) \<and>
   map (\<lambda>t. t\<lparr>rank := None\<rparr>)
     (filter (\<lambda>t. priority_score t = k) (prioritize_tasks m d tasks))
   = map (\<lambda>t. t\<lparr>rank := None\<rparr>)
     (filter (\<lambda>t. priority_score t = k)
        (map (adjust_task (get_preference m ''morning_categories'' [''meeting'', ''review'']))
           (sorted_reverse priority_score (map (score_task d) tasks)))) \<and>
   filter (\<lambda>t. priority_score t = k) (sorted_reverse priority_score (map (score_task d) tasks))
   = filter (\<lambda>t. priority_score t = k) (map (score_task d) tasks) \<and>
   sorted_wrt (\<lambda>a b. priority_score b \<le> priority_score a)
     (sorted_reverse priority_score (map (score_task d) tasks)) \<and>
   map rank (prioritize_tasks m d tasks) = map (\<lambda>j. Some (j + 1)) [0 ..< length tasks] \<and>
   mset (map (\<lambda>t. t\<lparr>rank := None\<rparr>) (prioritize_tasks m d tasks))
   = mset (map (\<lambda>t. t\<lparr>rank := None\<rparr>)
       (map (adjust_task (get_preference m ''morning_categories'' [''meeting'', ''review'']))
          (map (score_task d) tasks)))"
proof -
  let ?p = "get_preference m ''morning_categories'' [''meeting'', ''review'']"
  let ?first = "sorted_reverse priority_score (map (score_task d) tasks)"
  let ?second = "sorted_reverse priority_score (map (adjust_task ?p) (assign_ranks 0 ?first))"
  have R: "prioritize_tasks m d tasks = assign_ranks 0 ?second"
    by (simp add: prioritize_tasks_def apply_user_preferences_def sorted_tasks_def Let_def)
  have 1: "sorted_wrt (\<lambda>a b. priority_score b \<le> priority_score a) (assign_ranks 0 ?second)"
    by (simp only: descending_assign_ranks sorted_reverse_descending)
  have 2: "map (\<lambda>t. t\<lparr>rank := None\<rparr>)
             (filter (\<lambda>t. priority_score t = k) (assign_ranks 0 ?second))
           = map (\<lambda>t. t\<lparr>rank := None\<rparr>)
             (filter (\<lambda>t. priority_score t = k) (map (adjust_task ?p) ?first))"
    by (simp only: filter_assign_ranks sorted_reverse_stable filter_adjust_assign_ranks)
  have len: "length (assign_ranks i xs) = length xs" for i xs
    by (induction xs arbitrary: i) auto
  have rk: "map rank (assign_ranks i xs) = map (\<lambda>j. Some (j + 1)) [i ..< i + length xs]" for i xs
    by (induction xs arbitrary: i) (simp_all add: upt_conv_Cons del: upt_Suc)
  have 5: "map rank (assign_ranks 0 ?second) = map (\<lambda>j. Some (j + 1)) [0 ..< length tasks]"
    by (simp add: rk sorted_reverse_def len del: upt_Suc)
  have 6: "sorted_wrt (\<lambda>a b. priority_score b \<le> priority_score a) (prioritize_tasks m d tasks)"
    unfolding R by (rule 1)
  have 7: "map (\<lambda>t. t\<lparr>rank := None\<rparr>)
             (filter (\<lambda>t. priority_score t = k) (prioritize_tasks m d tasks))
           = map (\<lambda>t. t\<lparr>rank := None\<rparr>)
             (filter (\<lambda>t. priority_score t = k) (map (adjust_task ?p) ?first))"
    unfolding R by (rule 2)
  have 8: "map rank (prioritize_tasks m d tasks) = map (\<lambda>j. Some (j + 1)) [0 ..< length tasks]"
    unfolding R by (rule 5)
  from 6 7 8 sorted_reverse_stable [of priority_score k "map (score_task d) tasks"]
    sorted_reverse_descending [of priority_score "map (score_task d) tasks"]
    prioritize_tasks_mset [of m d tasks]
  show ?thesis by blast
qed

text \<open>
  Claim C2, as stated, fails: the input is sorted once before the adjustment, and the
  second sort is stable with respect to that first ranking, not to the input. Task A
  (score 2.5, raised to 2.7 by the preference) precedes task B (score 2.7) in the input;
  both end with the score 2.7, and B comes first.
\<close>

theorem prioritize_tasks_input_order_counterexample:
  "map (\<lambda>t. (t_name (st_task t), priority_score t))
       (prioritize_tasks empty_memory no_parse [short_meeting, long_coding])
     = [(Some ''B'', 27 / 10), (Some ''A'', 27 / 10)] \<and>
   t_name short_meeting = Some ''A'' \<and> t_name long_coding = Some ''B''"
  by code_simp


section \<open>Properties of the planner agent\<close>








lemma layout_chained: "layout c ts = Inr bs \<Longrightarrow> chained c bs \<and> length bs = 2 * length ts"
proof (induction ts arbitrary: c bs)
  case Nil
  then show ?case by simp
next
  case (Cons t ts)
  then show ?case
    by (auto simp: Let_def split: option.splits sum.splits)
qed

lemma chained_start: "chained c bs \<Longrightarrow> bs \<noteq> [] \<Longrightarrow> b_start_time (bs ! 0) = c"
  by (induction c bs rule: chained.induct) auto

lemma chained_adjacent:
  "chained c bs \<Longrightarrow> Suc i < length bs \<Longrightarrow> b_end_time (bs ! i) = b_start_time (bs ! Suc i)"
proof (induction c bs arbitrary: i rule: chained.induct)
  case (3 c t b rest)
  then obtain d where d: "b_duration t = Some d" "b_start_time b = b_end_time t"
      "chained (b_end_time b) rest"
    by (auto split: option.splits)
  show ?case
  proof (cases i)
    case 0
    then show ?thesis using d by simp
  next
    case (Suc k)
    show ?thesis
    proof (cases k)
      case 0
      hence "rest \<noteq> []" using 3(3) Suc by auto
      from chained_start [OF d(3) this] show ?thesis using Suc 0 by simp
    next
      case (Suc m)
      have "Suc m < length rest" using 3(3) \<open>i = Suc k\<close> Suc by simp
      from 3(1) [OF d(1) d(3) this] show ?thesis using \<open>i = Suc k\<close> Suc by simp
    qed
  qed
qed simp_all

lemma chained_types:
  "chained c bs \<Longrightarrow> i < length bs \<Longrightarrow> b_type (bs ! i) = (if even i then ''task'' else ''break'')"
proof (induction c bs arbitrary: i rule: chained.induct)
  case (3 c t b rest)
  then obtain d where d: "b_duration t = Some d" "chained (b_end_time b) rest"
    and ty: "b_type t = ''task''" "b_type b = ''break''"
    by (auto split: option.splits)
  show ?case
  proof (cases i)
    case 0
    then show ?thesis using ty by simp
  next
    case (Suc k)
    show ?thesis
    proof (cases k)
      case 0
      then show ?thesis using Suc ty by simp
    next
      case (Suc m)
      have "m < length rest" using 3(3) \<open>i = Suc k\<close> Suc by simp
      from 3(1) [OF d(1) d(2) this] show ?thesis using \<open>i = Suc k\<close> Suc by simp
    qed
  qed
qed simp_all

lemma chained_break_after:
  "chained c bs \<Longrightarrow> i < length bs \<Longrightarrow> b_type (bs ! i) = ''task'' \<Longrightarrow>
   Suc i < length bs \<and> b_type (bs ! Suc i) = ''break'' \<and>
   (\<exists>d. b_duration (bs ! i) = Some d \<and>
        b_end_time (bs ! i) = b_start_time (bs ! i) + d \<and>
        b_duration (bs ! Suc i) = Some (if d \<ge> 60 then 15 else 5) \<and>
        b_end_time (bs ! Suc i) = b_start_time (bs ! Suc i) + (if d \<ge> 60 then 15 else 5))"
proof (induction c bs arbitrary: i rule: chained.induct)
  case (3 c t b rest)
  then obtain d where d: "b_duration t = Some d" "chained (b_end_time b) rest"
    and ty: "b_type t = ''task''" "b_type b = ''break''"
    and rest: "b_start_time t = c" "b_end_time t = c + d"
      "b_duration b = Some (if d \<ge> 60 then 15 else 5)"
      "b_end_time b = b_start_time b + (if d \<ge> 60 then 15 else 5)"
    by (auto split: option.splits)
  show ?case
  proof (cases i)
    case 0
    then show ?thesis using ty d rest by simp
  next
    case (Suc k)
    show ?thesis
    proof (cases k)
      case 0
      then show ?thesis using Suc ty 3(4) by simp
    next
      case (Suc m)
      have m: "m < length rest" "b_type (rest ! m) = ''task''"
        using 3(3,4) \<open>i = Suc k\<close> Suc by simp_all
      from 3(1) [OF d(1) d(2) m] show ?thesis using \<open>i = Suc k\<close> Suc by simp
    qed
  qed
qed simp_all

text \<open>
  Claim C6. In every schedule the scheduler returns, each block ends when the next one
  starts; the blocks alternate, task blocks at even positions and break blocks at odd
  positions; every task block of duration \<open>d\<close> ends \<open>d\<close> minutes after its start and is
  followed at once by a break block of 15 minutes if \<open>d \<ge> 60\<close>, else 5 minutes. There are
  two blocks per task, and the first block starts at the anchor time.
\<close>

theorem schedule_contiguous_alternating:
  assumes "schedule_tasks anchor tasks = Inr schedule"
  shows "(\<forall>i. Suc i < length schedule \<longrightarrow>
            b_end_time (schedule ! i) = b_start_time (schedule ! Suc i)) \<and>
         (\<forall>i. i < length schedule \<longrightarrow>
            b_type (schedule ! i) = (if even i then ''task'' else ''break'')) \<and>
         (\<forall>i. i < length schedule \<and> b_type (schedule ! i) = ''task'' \<longrightarrow>
            Suc i < length schedule \<and> b_type (schedule ! Suc i) = ''break'' \<and>
            (\<exists>d. b_duration (schedule ! i) = Some d \<and>
                 b_end_time (schedule ! i) = b_start_time (schedule ! i) + d \<and>
                 b_duration (schedule ! Suc i) = Some (if d \<ge> 60 then 15 else 5) \<and>
                 b_end_time (schedule ! Suc i)
                   = b_start_time (schedule ! Suc i) + (if d \<ge> 60 then 15 else 5))) \<and>
         length schedule = 2 * length tasks \<and>
         (schedule \<noteq> [] \<longrightarrow> b_start_time (schedule ! 0) = anchor)"
proof -
  from assms obtain sl where sl: "sort_for_schedule tasks = Inr sl"
    and lay: "layout anchor sl = Inr schedule"
    by (auto simp: schedule_tasks_def split: sum.splits)
  from sl have "sl = sort_key schedule_key tasks"
    by (auto simp: sort_for_schedule_def split: if_splits)
  hence len: "length sl = length tasks" by simp
  from layout_chained [OF lay] have ch: "chained anchor schedule"
    and l2: "length schedule = 2 * length sl" by simp_all
  have a: "\<forall>i. Suc i < length schedule \<longrightarrow>
            b_end_time (schedule ! i) = b_start_time (schedule ! Suc i)"
    using chained_adjacent [OF ch] by blast
  have b: "\<forall>i. i < length schedule \<longrightarrow>
            b_type (schedule ! i) = (if even i then ''task'' else ''break'')"
    using chained_types [OF ch] by blast
  have c: "\<forall>i. i < length schedule \<and> b_type (schedule ! i) = ''task'' \<longrightarrow>
            Suc i < length schedule \<and> b_type (schedule ! Suc i) = ''break'' \<and>
            (\<exists>d. b_duration (schedule ! i) = Some d \<and>
                 b_end_time (schedule ! i) = b_start_time (schedule ! i) + d \<and>
                 b_duration (schedule ! Suc i) = Some (if d \<ge> 60 then 15 else 5) \<and>
                 b_end_time (schedule ! Suc i)
                   = b_start_time (schedule ! Suc i) + (if d \<ge> 60 then 15 else 5))"
    using chained_break_after [OF ch] by blast
  have d: "length schedule = 2 * length tasks" using l2 len by simp
  have e: "schedule \<noteq> [] \<longrightarrow> b_start_time (schedule ! 0) = anchor"
    using chained_start [OF ch] by blast
  from a b c d e show ?thesis by blast
qed

theorem schedule_contiguous_alternating_witness:
  "schedule_tasks 540 [plain_task\<lparr>t_estimated_duration := Some 30\<rparr>, plain_task]
     = Inr [\<lparr>b_type = ''task'', b_name = ''Task'', b_category = Some ''general'',
              b_priority = Some ''medium'', b_start_time = 540, b_end_time = 570,
              b_duration = Some 30\<rparr>,
            \<lparr>b_type = ''break'', b_name = ''5-minute break'', b_category = None,
              b_priority = None, b_start_time = 570, b_end_time = 575,
              b_duration = Some 5\<rparr>,
            \<lparr>b_type = ''task'', b_name = ''Task'', b_category = Some ''general'',
              b_priority = Some ''medium'', b_start_time = 575, b_end_time = 635,
              b_duration = Some 60\<rparr>,
            \<lparr>b_type = ''break'', b_name = ''15-minute break'', b_category = None,
              b_priority = None, b_start_time = 635, b_end_time = 650,
              b_duration = Some 15\<rparr>]"
proof -
  have h: "schedule_tasks 540 [plain_task\<lparr>t_estimated_duration := Some 30\<rparr>, plain_task]
     = Inr [\<lparr>b_type = ''task'', b_name = ''Task'', b_category = Some ''general'',
              b_priority = Some ''medium'', b_start_time = 540, b_end_time = 570,
              b_duration = Some 30\<rparr>,
            \<lparr>b_type = ''break'', b_name = ''5-minute break'', b_category = None,
              b_priority = None, b_start_time = 570, b_end_time = 575,
              b_duration = Some 5\<rparr>,
            \<lparr>b_type = ''task'', b_name = ''Task'', b_category = Some ''general'',
              b_priority = Some ''medium'', b_start_time = 575, b_end_time = 635,
              b_duration = Some 60\<rparr>,
            \<lparr>b_type = ''break'', b_name = ''15-minute break'', b_category = None,
              b_priority = None, b_start_time = 635, b_end_time = 650,
              b_duration = Some 15\<rparr>]"
    by code_simp
  from schedule_contiguous_alternating [OF h] show ?thesis using h by simp
qed


section \<open>Properties of the plan evaluator\<close>



lemma alignment_loop_le: "alignment_loop idx bs score \<le> score"
proof (induction bs arbitrary: idx score)
  case Nil
  show ?case by simp
next
  case (Cons b bs)
  have "alignment_loop (idx + 1) bs s \<le> score" if "s \<le> score" for s
    using Cons.IH [of "idx + 1" s] that by linarith
  thus ?case by (simp add: Let_def)
qed

lemma feasibility_loop_le: "feasibility_loop bs score \<le> score"
proof (induction bs arbitrary: score)
  case Nil
  show ?case by simp
next
  case (Cons b bs)
  show ?case using Cons.IH [of "score - 2"] Cons.IH [of score] by simp
qed

lemma time_efficiency_range: "0 \<le> score_time_efficiency p \<and> score_time_efficiency p \<le> 25"
  by (simp add: score_time_efficiency_def Let_def)

lemma priority_alignment_range:
  "0 \<le> score_priority_alignment p ts \<and> score_priority_alignment p ts \<le> 25"
  by (simp add: score_priority_alignment_def alignment_loop_le)

lemma feasibility_range: "0 \<le> score_feasibility p \<and> score_feasibility p \<le> 25"
proof -
  have "feasibility_loop (plan_blocks p) s \<le> 25" if "s \<le> 25" for s
    using feasibility_loop_le [of "plan_blocks p" s] that by linarith
  thus ?thesis by (simp add: score_feasibility_def Let_def)
qed

lemma work_life_balance_range:
  "0 \<le> score_work_life_balance p prefs \<and> score_work_life_balance p prefs \<le> 25"
  by (simp add: score_work_life_balance_def Let_def)

text \<open>
  Claim C7. For every plan, task list and preferences, each of the four sub-scores of
  \<open>evaluate_plan\<close> lies between 0 and 25, the total score is their sum and lies between
  0 and 100, and the grade is \<open>calculate_grade\<close> of the total score, which is A from 90,
  B from 80, C from 70, D from 60, and F below.
\<close>

theorem evaluation_scores_bounded:
  "0 \<le> time_efficiency (scores_breakdown (evaluate_plan p ts prefs)) \<and>
   time_efficiency (scores_breakdown (evaluate_plan p ts prefs)) \<le> 25 \<and>
   0 \<le> priority_alignment (scores_breakdown (evaluate_plan p ts prefs)) \<and>
   priority_alignment (scores_breakdown (evaluate_plan p ts prefs)) \<le> 25 \<and>
   0 \<le> feasibility (scores_breakdown (evaluate_plan p ts prefs)) \<and>
   feasibility (scores_breakdown (evaluate_plan p ts prefs)) \<le> 25 \<and>
   0 \<le> work_life_balance (scores_breakdown (evaluate_plan p ts prefs)) \<and>
   work_life_balance (scores_breakdown (evaluate_plan p ts prefs)) \<le> 25 \<and>
   total_score (evaluate_plan p ts prefs)
     = time_efficiency (scores_breakdown (evaluate_plan p ts prefs))
       + priority_alignment (scores_breakdown (evaluate_plan p ts prefs))
       + feasibility (scores_breakdown (evaluate_plan p ts prefs))
       + work_life_balance (scores_breakdown (evaluate_plan p ts prefs)) \<and>
   0 \<le> total_score (evaluate_plan p ts prefs) \<and>
   total_score (evaluate_plan p ts prefs) \<le> 100 \<and>
   grade (evaluate_plan p ts prefs) = calculate_grade (total_score (evaluate_plan p ts prefs)) \<and>
   calculate_grade s
     = (if s \<ge> 90 then ''A'' else if s \<ge> 80 then ''B'' else if s \<ge> 70 then ''C''
        else if s \<ge> 60 then ''D'' else ''F'')"
proof -
  note r = time_efficiency_range [of p] priority_alignment_range [of p ts]
    feasibility_range [of p]
    work_life_balance_range [of p "case prefs of Some x \<Rightarrow> x | None \<Rightarrow> \<lparr>max_work_hours = None\<rparr>"]
  show ?thesis
    using r by (simp add: evaluate_plan_def Let_def calculate_grade_def)
qed

text \<open>
  Claim C4 at a plan of the planner. \<open>_score_work_life_balance\<close> reads the key
  \<open>includes_breaks\<close> of the plan, not its blocks, and \<open>create_plan\<close> sets no such key:
  the plan for one 60-minute task contains a break block, and its work-life-balance score
  is 20, the 5-point penalty for a plan without breaks applied.
\<close>

theorem work_life_balance_penalty_despite_breaks:
  "create_plan 540 [plain_task]
     = Inr \<lparr> scheduled_tasks = Some
               [\<lparr>b_type = ''task'', b_name = ''Task'', b_category = Some ''general'',
                  b_priority = Some ''medium'', b_start_time = 540, b_end_time = 600,
                  b_duration = Some 60\<rparr>,
                \<lparr>b_type = ''break'', b_name = ''15-minute break'', b_category = None,
                  b_priority = None, b_start_time = 600, b_end_time = 615,
                  b_duration = Some 15\<rparr>],
             task_count = Some 1, total_work_minutes = Some 60, includes_breaks = None \<rparr> \<and>
   score_work_life_balance
     \<lparr> scheduled_tasks = Some
               [\<lparr>b_type = ''task'', b_name = ''Task'', b_category = Some ''general'',
                  b_priority = Some ''medium'', b_start_time = 540, b_end_time = 600,
                  b_duration = Some 60\<rparr>,
                \<lparr>b_type = ''break'', b_name = ''15-minute break'', b_category = None,
                  b_priority = None, b_start_time = 600, b_end_time = 615,
                  b_duration = Some 15\<rparr>],
             task_count = Some 1, total_work_minutes = Some 60, includes_breaks = None \<rparr>
     \<lparr> max_work_hours = None \<rparr> = 20"
  by code_simp

end
